theory Spec2Isabelle
  imports Main
begin

section \<open>Python values and text helpers\<close>

text \<open>
  The pipeline passes around text that may be absent: a value that is either a Python
  \<open>str\<close> (\<open>Some s\<close>) or Python's \<open>None\<close> (\<open>None\<close>). An attribute of a duck-typed
  object is such a value wrapped once more, the outer \<open>None\<close> meaning that
  \<open>hasattr\<close> is false. A raised exception is represented by the text \<open>str(e)\<close>,
  the only thing the code ever reads from it.
\<close>

type_synonym pystr = "string option"

type_synonym exn = string

abbreviation nl :: char where
  "nl \<equiv> CHR 0x0A"

text \<open>\<open>hasattr(obj, name) and obj.name\<close>: the attribute's text when the attribute
  exists and is a non-empty string, otherwise nothing.\<close>

fun truthy_attr :: "pystr option \<Rightarrow> string option" where
  "truthy_attr None = None"
| "truthy_attr (Some None) = None"
| "truthy_attr (Some (Some s)) = (if s = [] then None else Some s)"

text \<open>\<open>sep.join(parts)\<close>.\<close>

fun join :: "string \<Rightarrow> string list \<Rightarrow> string" where
  "join sep [] = []"
| "join sep [x] = x"
| "join sep (x # y # ys) = x @ sep @ join sep (y # ys)"

text \<open>\<open>str(n)\<close> for a non-negative integer: its decimal digits.\<close>

definition digit_char :: "nat \<Rightarrow> char" where
  "digit_char d = ''0123456789'' ! d"

function str_nat :: "nat \<Rightarrow> string" where
  "str_nat n = (if n < 10 then [digit_char n] else str_nat (n div 10) @ [digit_char (n mod 10)])"
  by pat_completeness auto
termination
  by (relation "measure id") auto

declare str_nat.simps [simp del]

section \<open>Data model\<close>

text \<open>
  A retrieved passage (LangChain's \<open>Document\<close>): body text and a metadata dictionary.
  The tool code asks \<open>hasattr(d, "metadata")\<close>, so the dictionary itself may be missing.
  Metadata values are taken to be strings.
\<close>

record Document =
  page_content :: string
  metadata :: "(string \<rightharpoonup> string) option"

text \<open>
  Modelled from the spec: the class \<open>RAGState\<close> of \<open>src/state/rag_state.py\<close>, which is
  imported by every node but is not among the sources. Section 3 of the specification
  gives its three fields: the question, the ordered retrieved passages, and an optional
  answer that is absent until generation completes.
\<close>

record RAGState =
  question :: string
  retrieved_docs :: "Document list"
  answer :: pystr

text \<open>
  Modelled from the spec: the constructor call \<open>RAGState(question=q, retrieved_docs=docs)\<close>
  that leaves the answer at its default, which the specification gives as unset.
\<close>

definition RAGState_of :: "string \<Rightarrow> Document list \<Rightarrow> RAGState" where
  "RAGState_of q docs = \<lparr>question = q, retrieved_docs = docs, answer = None\<rparr>"

section \<open>Collaborators\<close>

text \<open>
  The retriever is \<open>retriever.invoke(query)\<close>: it returns passages or raises. Every call
  to a collaborator is recorded in a trace, so that "exactly one query" is a statement
  about the model.
\<close>

type_synonym retriever = "string \<Rightarrow> exn + Document list"

datatype call =
    RetrieverInvoke string
  | LlmInvoke string
  | LlmStream string
  | AgentInvoke string
  | AgentStream string

text \<open>
  The language model. \<open>llm.invoke(prompt)\<close> returns a response object whose
  \<open>content\<close> is read, or raises. \<open>llm.stream(prompt)\<close> is a lazy sequence consumed by a
  \<open>for\<close> loop: the chunks it produces, in order, and then either its normal end or the
  exception it raises (an exception raised by the call itself is the case of no chunks).
  A chunk is either a plain \<open>str\<close> or an object that may carry a \<open>content\<close> and a
  \<open>text\<close> attribute, each a string or \<open>None\<close>; a \<open>str\<close> has neither attribute.
\<close>

datatype response = Response (response_content: pystr)

datatype chunk =
    ObjChunk "pystr option" "pystr option"
  | StrChunk string

record llm =
  llm_invoke :: "string \<Rightarrow> exn + response"
  llm_stream :: "string \<Rightarrow> chunk list \<times> exn option"

text \<open>
  A Python generator is represented by what its consumer can observe once it has run to its
  end: the collaborator calls it made, the values it yielded, in order, and the value of its
  \<open>return\<close> statement. A yielded value is a string or \<open>None\<close>; \<open>IState\<close> stands for a
  yielded state object, which the orchestrator's loop is prepared to receive.
\<close>

datatype item = IStr string | INone | IState RAGState

record generation =
  gen_calls :: "call list"
  gen_yields :: "item list"
  gen_return :: RAGState

section \<open>Retrieval stage\<close>

text \<open>\<open>RAGNodes.retrieve_docs\<close> of \<open>src/nodes/nodes.py\<close>.\<close>

definition retrieve_docs :: "retriever \<Rightarrow> RAGState \<Rightarrow> call list \<times> (exn + RAGState)" where
  "retrieve_docs retriever state =
     ([RetrieverInvoke (question state)],
      case retriever (question state) of
        Inl e \<Rightarrow> Inl e
      | Inr docs \<Rightarrow> Inr (RAGState_of (question state) docs))"

text \<open>\<open>RAGNodes.retrieve_docs\<close> of \<open>src/nodes/reactnode.py\<close>: the same body.\<close>

definition react_retrieve_docs :: "retriever \<Rightarrow> RAGState \<Rightarrow> call list \<times> (exn + RAGState)" where
  "react_retrieve_docs retriever state =
     ([RetrieverInvoke (question state)],
      case retriever (question state) of
        Inl e \<Rightarrow> Inl e
      | Inr docs \<Rightarrow> Inr (RAGState_of (question state) docs))"

section \<open>Generation stage, simple mode\<close>

text \<open>The f-string prompt template that both simple-mode functions build.\<close>

definition make_prompt :: "string \<Rightarrow> string \<Rightarrow> string" where
  "make_prompt context q =
     ''Answer the question based on the context.'' @ [nl, nl] @
     ''Context:'' @ [nl] @ context @ [nl, nl] @
     ''Question: '' @ q"

text \<open>\<open>RAGNodes.generate_answer\<close> of \<open>src/nodes/nodes.py\<close>.\<close>

definition generate_answer :: "llm \<Rightarrow> RAGState \<Rightarrow> call list \<times> (exn + RAGState)" where
  "generate_answer llm state =
     (let context = join [nl, nl] (map page_content (retrieved_docs state));
          prompt = make_prompt context (question state)
      in ([LlmInvoke prompt],
          case llm_invoke llm prompt of
            Inl e \<Rightarrow> Inl e
          | Inr response \<Rightarrow>
              Inr \<lparr>question = question state,
                   retrieved_docs = retrieved_docs state,
                   answer = response_content response\<rparr>))"

text \<open>
  The body of the streaming loop for one chunk: the values yielded and the new
  \<open>full_answer\<close>. The three branches of the \<open>if\<close>/\<open>elif\<close> chain are tried in the
  source's order; an object chunk is never an instance of \<open>str\<close>.
\<close>

fun chunk_step :: "string \<Rightarrow> chunk \<Rightarrow> item list \<times> string" where
  "chunk_step full_answer (ObjChunk c t) =
     (case truthy_attr c of
        Some s \<Rightarrow> ([IStr (full_answer @ s)], full_answer @ s)
      | None \<Rightarrow>
          (case truthy_attr t of
             Some s \<Rightarrow> ([IStr (full_answer @ s)], full_answer @ s)
           | None \<Rightarrow> ([], full_answer)))"
| "chunk_step full_answer (StrChunk s) = ([IStr (full_answer @ s)], full_answer @ s)"

text \<open>The \<open>for chunk in self.llm.stream(prompt)\<close> loop over the chunks received.\<close>

fun stream_loop :: "string \<Rightarrow> chunk list \<Rightarrow> item list \<times> string" where
  "stream_loop full_answer [] = ([], full_answer)"
| "stream_loop full_answer (chunk # rest) =
     (let (ys, full_answer') = chunk_step full_answer chunk;
          (zs, final) = stream_loop full_answer' rest
      in (ys @ zs, final))"

text \<open>\<open>RAGNodes.generate_answer_streaming\<close> of \<open>src/nodes/nodes.py\<close>.\<close>

definition generate_answer_streaming :: "llm \<Rightarrow> RAGState \<Rightarrow> generation" where
  "generate_answer_streaming llm state =
     (let context = join [nl, nl] (map page_content (retrieved_docs state));
          prompt = make_prompt context (question state);
          (chunks, raised) = llm_stream llm prompt;
          (ys, full_answer) = stream_loop [] chunks
      in case raised of
           None \<Rightarrow>
             \<lparr>gen_calls = [LlmStream prompt],
              gen_yields = ys,
              gen_return = \<lparr>question = question state,
                             retrieved_docs = retrieved_docs state,
                             answer = Some full_answer\<rparr>\<rparr>
         | Some e \<Rightarrow>
             (let error_msg = ''Error during streaming: '' @ e
              in \<lparr>gen_calls = [LlmStream prompt],
                  gen_yields = ys @ [IStr error_msg],
                  gen_return = \<lparr>question = question state,
                                 retrieved_docs = retrieved_docs state,
                                 answer = Some error_msg\<rparr>\<rparr>))"

section \<open>Generation stage, tool-augmented mode\<close>

text \<open>
  The retrieval tool handed to the reasoning loop: \<open>retriever_tool_fn\<close>, nested in
  \<open>RAGNodes._build_tools\<close> of \<open>src/nodes/reactnode.py\<close>. First the title chosen for the
  passage numbered \<open>i\<close>: \<open>meta.get("title") or meta.get("source") or f"doc_{i}"\<close>, where
  \<open>meta\<close> is the empty dictionary when the passage has no metadata.
\<close>

definition doc_title :: "nat \<Rightarrow> Document \<Rightarrow> string" where
  "doc_title i d =
     (let meta = (case metadata d of Some m \<Rightarrow> m | None \<Rightarrow> Map.empty)
      in case truthy_attr (Some (meta ''title'')) of
           Some t \<Rightarrow> t
         | None \<Rightarrow>
             (case truthy_attr (Some (meta ''source'')) of
                Some t \<Rightarrow> t
              | None \<Rightarrow> ''doc_'' @ str_nat i))"

text \<open>The loop \<open>for i, d in enumerate(docs[:8], start=1)\<close>, entered at index \<open>i\<close>.\<close>

fun merge_docs :: "nat \<Rightarrow> Document list \<Rightarrow> string list" where
  "merge_docs i [] = []"
| "merge_docs i (d # ds) =
     (''['' @ str_nat i @ ''] '' @ doc_title i d @ [nl] @ page_content d) # merge_docs (Suc i) ds"

definition retriever_tool_fn :: "retriever \<Rightarrow> string \<Rightarrow> call list \<times> (exn + string)" where
  "retriever_tool_fn retriever query =
     ([RetrieverInvoke query],
      case retriever query of
        Inl e \<Rightarrow> Inl e
      | Inr docs \<Rightarrow>
          if docs = [] then Inr ''No documents found.''
          else Inr (join [nl, nl] (merge_docs 1 (take 8 docs))))"

text \<open>
  The reasoning loop (the agent built by \<open>create_react_agent\<close>, an external library) is
  taken as given, already built. It is called on the state's question. \<open>invoke\<close> returns a
  dictionary, of which the code reads the \<open>messages\<close> entry (absent, or a list of
  messages), or raises; \<open>stream\<close> produces chunks, each a dictionary with an optional
  \<open>messages\<close> entry, and ends normally or by raising. Of a message the code reads the
  \<open>content\<close> attribute and the \<open>finish_reason\<close> entry of \<open>response_metadata\<close>.
\<close>

record message =
  msg_content :: "pystr option"
  msg_response_metadata :: "(string \<rightharpoonup> string) option"

datatype agent_chunk = AgentChunk "message list option"

record agent =
  agent_invoke :: "string \<Rightarrow> exn + message list option"
  agent_stream :: "string \<Rightarrow> agent_chunk list \<times> exn option"

text \<open>\<open>RAGNodes.generate_answer\<close> of \<open>src/nodes/reactnode.py\<close>.\<close>

definition react_generate_answer :: "agent \<Rightarrow> RAGState \<Rightarrow> call list \<times> (exn + RAGState)" where
  "react_generate_answer ag state =
     ([AgentInvoke (question state)],
      case agent_invoke ag (question state) of
        Inl e \<Rightarrow> Inl e
      | Inr result \<Rightarrow>
          (let messages = (case result of Some ms \<Rightarrow> ms | None \<Rightarrow> []);
               ans = (if messages \<noteq> []
                      then (case msg_content (last messages) of Some v \<Rightarrow> v | None \<Rightarrow> None)
                      else None)
           in Inr \<lparr>question = question state,
                   retrieved_docs = retrieved_docs state,
                   answer = (case truthy_attr (Some ans) of
                               Some s \<Rightarrow> Some s
                             | None \<Rightarrow> Some ''Could not generate answer.'')\<rparr>))"

text \<open>
  \<open>hasattr(latest_message, 'response_metadata') and
  latest_message.response_metadata.get('finish_reason')\<close>.
\<close>

definition finish_marked :: "message \<Rightarrow> bool" where
  "finish_marked m =
     (case msg_response_metadata m of
        None \<Rightarrow> False
      | Some md \<Rightarrow> truthy_attr (Some (md ''finish_reason'')) \<noteq> None)"

text \<open>The body of the streaming loop for one chunk of the reasoning loop's stream.\<close>

fun react_chunk_step :: "string \<Rightarrow> agent_chunk \<Rightarrow> item list \<times> string" where
  "react_chunk_step full_answer (AgentChunk None) = ([], full_answer)"
| "react_chunk_step full_answer (AgentChunk (Some msgs)) =
     (if msgs = [] then ([], full_answer)
      else
        (let latest_message = last msgs
         in case truthy_attr (msg_content latest_message) of
              None \<Rightarrow> ([], full_answer)
            | Some c \<Rightarrow>
                if finish_marked latest_message
                then (let full_answer' = c in ([IStr full_answer'], full_answer'))
                else ([IStr c], c)))"

fun react_stream_loop :: "string \<Rightarrow> agent_chunk list \<Rightarrow> item list \<times> string" where
  "react_stream_loop full_answer [] = ([], full_answer)"
| "react_stream_loop full_answer (chunk # rest) =
     (let (ys, full_answer') = react_chunk_step full_answer chunk;
          (zs, final) = react_stream_loop full_answer' rest
      in (ys @ zs, final))"

text \<open>A yielded value that is a string or \<open>None\<close>.\<close>

fun item_of :: "pystr \<Rightarrow> item" where
  "item_of None = INone"
| "item_of (Some s) = IStr s"

text \<open>The \<open>except Exception\<close> handler: one error fragment, and a state carrying it.\<close>

definition react_error :: "call list \<Rightarrow> item list \<Rightarrow> RAGState \<Rightarrow> exn \<Rightarrow> generation" where
  "react_error cs ys state e =
     (let error_msg = ''Error generating answer: '' @ e
      in \<lparr>gen_calls = cs,
          gen_yields = ys @ [IStr error_msg],
          gen_return = \<lparr>question = question state,
                         retrieved_docs = retrieved_docs state,
                         answer = Some error_msg\<rparr>\<rparr>)"

text \<open>\<open>RAGNodes.generate_answer_streaming\<close> of \<open>src/nodes/reactnode.py\<close>.\<close>

definition react_generate_answer_streaming :: "agent \<Rightarrow> RAGState \<Rightarrow> generation" where
  "react_generate_answer_streaming ag state =
     (let q = question state;
          (chunks, raised) = agent_stream ag q;
          (ys, full_answer) = react_stream_loop [] chunks
      in case raised of
           Some e \<Rightarrow> react_error [AgentStream q] ys state e
         | None \<Rightarrow>
             if full_answer \<noteq> [] then
               \<lparr>gen_calls = [AgentStream q],
                gen_yields = ys,
                gen_return = \<lparr>question = q,
                               retrieved_docs = retrieved_docs state,
                               answer = Some full_answer\<rparr>\<rparr>
             else
               (case agent_invoke ag q of
                  Inl e \<Rightarrow> react_error [AgentStream q, AgentInvoke q] ys state e
                | Inr result \<Rightarrow>
                    (let messages = (case result of Some ms \<Rightarrow> ms | None \<Rightarrow> [])
                     in if messages \<noteq> [] then
                          (let fallback =
                                 (case msg_content (last messages) of
                                    Some v \<Rightarrow> v
                                  | None \<Rightarrow> Some ''Could not generate answer.'')
                           in \<lparr>gen_calls = [AgentStream q, AgentInvoke q],
                               gen_yields = ys @ [item_of fallback],
                               gen_return = \<lparr>question = q,
                                              retrieved_docs = retrieved_docs state,
                                              answer = fallback\<rparr>\<rparr>)
                        else
                          \<lparr>gen_calls = [AgentStream q, AgentInvoke q],
                           gen_yields = ys,
                           gen_return = \<lparr>question = q,
                                          retrieved_docs = retrieved_docs state,
                                          answer = Some []\<rparr>\<rparr>)))"

section \<open>Pipeline orchestrator\<close>

text \<open>
  A progress event: the dictionary with the keys \<open>step\<close>, \<open>content\<close> and \<open>state\<close> that
  \<open>GraphBuilder.run_streaming\<close> yields.
\<close>

datatype step = Retrieving | Generating | Complete

record event =
  ev_step :: step
  ev_content :: pystr
  ev_state :: "RAGState option"

text \<open>
  The loop \<open>for answer_chunk in self.nodes.generate_answer_streaming(...)\<close> of
  \<open>run_streaming\<close>. A \<open>for\<close> loop receives the values a generator yields; the value of the
  generator's \<open>return\<close> statement ends the iteration and is not bound to the loop variable.
  The loop threads \<open>final_state\<close>, which starts as \<open>None\<close>.
\<close>

fun relay :: "RAGState \<Rightarrow> item \<Rightarrow> item list \<Rightarrow> event list \<times> item" where
  "relay st final_state [] = ([], final_state)"
| "relay st final_state (IStr s # rest) =
     (let (evs, fin) = relay st final_state rest
      in (\<lparr>ev_step = Generating, ev_content = Some s, ev_state = Some st\<rparr> # evs, fin))"
| "relay st final_state (answer_chunk # rest) = relay st answer_chunk rest"

text \<open>
  \<open>if final_state: yield {complete, final_state.answer, final_state}\<close>. \<open>None\<close> is falsy and
  a state object is truthy. The loop never stores a string in \<open>final_state\<close>; had it one,
  the empty string would be falsy and any other would have no \<open>answer\<close> attribute.
\<close>

fun complete_step :: "item \<Rightarrow> event list \<times> exn option" where
  "complete_step INone = ([], None)"
| "complete_step (IState fs) =
     ([\<lparr>ev_step = Complete, ev_content = answer fs, ev_state = Some fs\<rparr>], None)"
| "complete_step (IStr s) =
     (if s = [] then ([], None) else ([], Some ''AttributeError: answer''))"

text \<open>
  \<open>GraphBuilder.run_streaming\<close> of \<open>src/graph_builder/graph_builder.py\<close>, over the
  retriever and the streaming generation stage of its node object: the collaborator calls
  made, the events yielded, and the exception that ends the sequence, if any.
\<close>

definition run_streaming ::
  "retriever \<Rightarrow> (RAGState \<Rightarrow> generation) \<Rightarrow> string \<Rightarrow> call list \<times> event list \<times> exn option" where
  "run_streaming retriever generate q =
     (let first = \<lparr>ev_step = Retrieving,
                   ev_content = Some ''Retrieving relevant documents...'',
                   ev_state = None\<rparr>
      in case retriever q of
           Inl e \<Rightarrow> ([RetrieverInvoke q], [first], Some e)
         | Inr docs \<Rightarrow>
             (let state_after_retrieval = RAGState_of q docs;
                  found = \<lparr>ev_step = Retrieving,
                           ev_content = Some (''Found '' @ str_nat (length docs) @ '' relevant documents''),
                           ev_state = Some state_after_retrieval\<rparr>;
                  start = \<lparr>ev_step = Generating,
                           ev_content = Some [],
                           ev_state = Some state_after_retrieval\<rparr>;
                  g = generate state_after_retrieval;
                  (evs, final_state) = relay state_after_retrieval INone (gen_yields g);
                  (done, raised) = complete_step final_state
              in (RetrieverInvoke q # gen_calls g, [first, found, start] @ evs @ done, raised)))"

text \<open>
  \<open>GraphBuilder\<close> takes its node class from \<open>src.nodes.reactnode\<close>; the node class of
  \<open>src/nodes/nodes.py\<close> has the same interface.
\<close>

definition run_streaming_react :: "retriever \<Rightarrow> agent \<Rightarrow> string \<Rightarrow> call list \<times> event list \<times> exn option" where
  "run_streaming_react retriever ag q = run_streaming retriever (react_generate_answer_streaming ag) q"

definition run_streaming_simple :: "retriever \<Rightarrow> llm \<Rightarrow> string \<Rightarrow> call list \<times> event list \<times> exn option" where
  "run_streaming_simple retriever llm q = run_streaming retriever (generate_answer_streaming llm) q"

section \<open>Observations used in the statements\<close>

text \<open>
  A chunk of the simple backend delivers the fragment \<open>f\<close>: it is the plain string \<open>f\<close>, or
  an object whose \<open>content\<close> is the non-empty \<open>f\<close>, or an object without usable
  \<open>content\<close> whose \<open>text\<close> is the non-empty \<open>f\<close>.
\<close>

fun delivers :: "chunk \<Rightarrow> string \<Rightarrow> bool" where
  "delivers (StrChunk s) f = (f = s)"
| "delivers (ObjChunk c t) f =
     (f \<noteq> [] \<and> (c = Some (Some f) \<or> (truthy_attr c = None \<and> t = Some (Some f))))"

text \<open>
  An attribute that is missing, \<open>None\<close> or the empty string; and the chunks of the simple
  backend that are not a plain string and have neither a usable \<open>content\<close> nor a usable
  \<open>text\<close>.
\<close>

definition empty_attr :: "pystr option \<Rightarrow> bool" where
  "empty_attr a = (a = None \<or> a = Some None \<or> a = Some (Some []))"

fun skipped :: "chunk \<Rightarrow> bool" where
  "skipped (ObjChunk c t) = (empty_attr c \<and> empty_attr t)"
| "skipped (StrChunk s) = False"

text \<open>
  The non-empty content carried by a chunk of the reasoning loop's stream, if any: that of
  the last message of a non-empty \<open>messages\<close> list. The completion marker plays no part.
\<close>

fun latest_content :: "agent_chunk \<Rightarrow> string option" where
  "latest_content (AgentChunk None) = None"
| "latest_content (AgentChunk (Some msgs)) =
     (if msgs = [] then None else truthy_attr (msg_content (last msgs)))"

text \<open>
  A yielded value that is a state object.
\<close>

fun is_state :: "item \<Rightarrow> bool" where
  "is_state (IState s) = True"
| "is_state y = False"

section \<open>Test doubles and example data\<close>

text \<open>
  Collaborators that answer every call the same way, and the inputs of the worked examples.
\<close>

definition fixed_retriever :: "Document list \<Rightarrow> retriever" where
  "fixed_retriever docs = (\<lambda>query. Inr docs)"

definition stub_llm :: "exn + response \<Rightarrow> chunk list \<Rightarrow> exn option \<Rightarrow> llm" where
  "stub_llm r chunks raised = \<lparr>llm_invoke = (\<lambda>prompt. r), llm_stream = (\<lambda>prompt. (chunks, raised))\<rparr>"

definition stub_agent :: "exn + message list option \<Rightarrow> agent_chunk list \<Rightarrow> exn option \<Rightarrow> agent" where
  "stub_agent r chunks raised = \<lparr>agent_invoke = (\<lambda>q. r), agent_stream = (\<lambda>q. (chunks, raised))\<rparr>"

definition two_docs :: "Document list" where
  "two_docs = [\<lparr>page_content = ''p1'', metadata = None\<rparr>, \<lparr>page_content = ''p2'', metadata = None\<rparr>]"

definition nine_docs :: "Document list" where
  "nine_docs =
     [\<lparr>page_content = ''a'', metadata = Some [''title'' \<mapsto> ''T'']\<rparr>,
      \<lparr>page_content = ''b'', metadata = Some [''source'' \<mapsto> ''S'']\<rparr>,
      \<lparr>page_content = ''c'', metadata = Some [''title'' \<mapsto> []]\<rparr>,
      \<lparr>page_content = ''d'', metadata = None\<rparr>,
      \<lparr>page_content = ''e'', metadata = None\<rparr>,
      \<lparr>page_content = ''f'', metadata = None\<rparr>,
      \<lparr>page_content = ''g'', metadata = None\<rparr>,
      \<lparr>page_content = ''h'', metadata = None\<rparr>,
      \<lparr>page_content = ''i'', metadata = None\<rparr>]"

definition text_message :: "string \<Rightarrow> message" where
  "text_message s = \<lparr>msg_content = Some (Some s), msg_response_metadata = None\<rparr>"

definition final_message :: "string \<Rightarrow> message" where
  "final_message s =
     \<lparr>msg_content = Some (Some s), msg_response_metadata = Some [''finish_reason'' \<mapsto> ''stop'']\<rparr>"

section \<open>Retrieval stage: results\<close>

text \<open>
  Claim C7. When the retrieval collaborator answers the query with a sequence of passages,
  \<open>retrieve_docs\<close> (in both node classes) issues exactly one query, on the state's
  question, and returns a state whose passages are exactly that sequence, whose question
  is the input's question and whose answer is unset. The input state is a value that the
  function only reads; the result is built afresh and does not depend on the input's
  passages or answer.
\<close>

theorem retrieve_docs_contract:
  assumes "retriever (question state) = Inr docs"
  shows "retrieve_docs retriever state =
           ([RetrieverInvoke (question state)],
            Inr \<lparr>question = question state, retrieved_docs = docs, answer = None\<rparr>)
         \<and> react_retrieve_docs retriever state = retrieve_docs retriever state"
  using assms by (simp add: retrieve_docs_def react_retrieve_docs_def RAGState_of_def)

theorem retrieve_docs_contract_witness:
  "fixed_retriever two_docs (question \<lparr>question = ''Q'', retrieved_docs = [], answer = Some ''old''\<rparr>)
     = Inr two_docs
   \<and> retrieve_docs (fixed_retriever two_docs)
        \<lparr>question = ''Q'', retrieved_docs = [], answer = Some ''old''\<rparr>
     = ([RetrieverInvoke ''Q''],
        Inr \<lparr>question = ''Q'', retrieved_docs = two_docs, answer = None\<rparr>)
   \<and> react_retrieve_docs (fixed_retriever two_docs)
        \<lparr>question = ''Q'', retrieved_docs = [], answer = Some ''old''\<rparr>
     = ([RetrieverInvoke ''Q''],
        Inr \<lparr>question = ''Q'', retrieved_docs = two_docs, answer = None\<rparr>)"
  using retrieve_docs_contract
    [of "fixed_retriever two_docs"
        "\<lparr>question = ''Q'', retrieved_docs = [], answer = Some ''old''\<rparr>" two_docs]
  by (simp add: fixed_retriever_def)

section \<open>Blocking generation, simple mode: results\<close>

lemma join_Cons: "join sep (x # xs) = x @ concat (map ((@) sep) xs)"
  by (induction xs arbitrary: x) auto

lemma context_block:
  "join [nl, nl] (map page_content docs) =
     (case docs of [] \<Rightarrow> [] | d # ds \<Rightarrow> page_content d @ concat (map (\<lambda>x. [nl, nl] @ page_content x) ds))"
  by (cases docs) (simp_all add: join_Cons comp_def)

text \<open>
  Claim C6. Blocking \<open>generate_answer\<close> of the simple node class asks the backend once,
  with the fixed template around the context block and the question, the context block
  being the passages' body texts in the order of \<open>retrieved_docs\<close> with a blank line between
  neighbours. When the backend answers, the result carries the response's content as its
  answer and the input's question and passages unchanged.
\<close>

theorem generate_answer_contract:
  assumes "llm_invoke llm
             (''Answer the question based on the context.'' @ [nl, nl] @
              ''Context:'' @ [nl] @
              (case retrieved_docs state of
                 [] \<Rightarrow> []
               | d # ds \<Rightarrow> page_content d @ concat (map (\<lambda>x. [nl, nl] @ page_content x) ds)) @
              [nl, nl] @ ''Question: '' @ question state) = Inr response"
    (is "llm_invoke llm ?prompt = _")
  shows "generate_answer llm state =
           ([LlmInvoke ?prompt],
            Inr \<lparr>question = question state,
                 retrieved_docs = retrieved_docs state,
                 answer = response_content response\<rparr>)"
proof -
  have "make_prompt (join [nl, nl] (map page_content (retrieved_docs state))) (question state) = ?prompt"
    unfolding make_prompt_def context_block by simp
  with assms show ?thesis
    by (simp add: generate_answer_def Let_def)
qed

theorem generate_answer_contract_witness:
  "llm_invoke (stub_llm (Inr (Response (Some ''ans''))) [] None)
     (''Answer the question based on the context.'' @ [nl, nl] @
      ''Context:'' @ [nl] @ ''p1'' @ [nl, nl] @ ''p2'' @ [nl, nl] @ ''Question: Q'')
     = Inr (Response (Some ''ans''))
   \<and> generate_answer (stub_llm (Inr (Response (Some ''ans''))) [] None)
        \<lparr>question = ''Q'', retrieved_docs = two_docs, answer = None\<rparr>
     = ([LlmInvoke (''Answer the question based on the context.'' @ [nl, nl] @
                    ''Context:'' @ [nl] @ ''p1'' @ [nl, nl] @ ''p2'' @ [nl, nl] @ ''Question: Q'')],
        Inr \<lparr>question = ''Q'', retrieved_docs = two_docs, answer = Some ''ans''\<rparr>)"
  using generate_answer_contract
    [of "stub_llm (Inr (Response (Some ''ans''))) [] None"
        "\<lparr>question = ''Q'', retrieved_docs = two_docs, answer = None\<rparr>"
        "Response (Some ''ans'')"]
  by (simp add: stub_llm_def two_docs_def)

section \<open>Streaming generation, simple mode: results\<close>

text \<open>
  Claim C3. When the backend's stream raises after having produced some chunks, simple
  streaming yields what those chunks gave, then exactly one more value, the text
  \<open>Error during streaming: \<close> followed by the exception's text, and returns a state whose
  answer is that same text; nothing is raised to the caller.
\<close>

theorem generate_answer_streaming_backend_failure:
  assumes "llm_stream llm
             (make_prompt (join [nl, nl] (map page_content (retrieved_docs state))) (question state))
           = (chunks, Some e)"
  shows "gen_yields (generate_answer_streaming llm state) =
           fst (stream_loop [] chunks) @ [IStr (''Error during streaming: '' @ e)]
         \<and> gen_return (generate_answer_streaming llm state) =
           \<lparr>question = question state,
            retrieved_docs = retrieved_docs state,
            answer = Some (''Error during streaming: '' @ e)\<rparr>"
  using assms by (simp add: generate_answer_streaming_def Let_def split: prod.splits)

theorem generate_answer_streaming_backend_failure_witness:
  "llm_stream (stub_llm (Inl ''unused'') [StrChunk ''A''] (Some ''boom''))
     (make_prompt (join [nl, nl] (map page_content two_docs)) ''Q'')
     = ([StrChunk ''A''], Some ''boom'')
   \<and> gen_yields (generate_answer_streaming (stub_llm (Inl ''unused'') [StrChunk ''A''] (Some ''boom''))
        \<lparr>question = ''Q'', retrieved_docs = two_docs, answer = None\<rparr>)
     = [IStr ''A'', IStr ''Error during streaming: boom'']
   \<and> gen_return (generate_answer_streaming (stub_llm (Inl ''unused'') [StrChunk ''A''] (Some ''boom''))
        \<lparr>question = ''Q'', retrieved_docs = two_docs, answer = None\<rparr>)
     = \<lparr>question = ''Q'', retrieved_docs = two_docs, answer = Some ''Error during streaming: boom''\<rparr>"
  using generate_answer_streaming_backend_failure
    [of "stub_llm (Inl ''unused'') [StrChunk ''A''] (Some ''boom'')"
        "\<lparr>question = ''Q'', retrieved_docs = two_docs, answer = None\<rparr>"
        "[StrChunk ''A'']" "''boom''"]
  by (simp add: stub_llm_def)

lemma chunk_step_delivers:
  "delivers c f \<Longrightarrow> chunk_step full c = ([IStr (full @ f)], full @ f)"
  by (cases c) auto

lemma stream_loop_delivers:
  "list_all2 delivers chunks fs \<Longrightarrow>
   stream_loop full chunks =
     (map (\<lambda>k. IStr (full @ concat (take (Suc k) fs))) [0..<length fs], full @ concat fs)"
proof (induction chunks fs arbitrary: full rule: list_all2_induct)
  case Nil
  then show ?case by simp
next
  case (Cons c cs f fs)
  have "map (\<lambda>k. IStr (full @ concat (take (Suc k) (f # fs)))) [0..<length (f # fs)]
        = IStr (full @ f) # map (\<lambda>k. IStr ((full @ f) @ concat (take (Suc k) fs))) [0..<length fs]"
    by (simp add: map_upt_Suc del: upt_Suc)
  with Cons show ?case
    by (simp add: chunk_step_delivers del: upt_Suc)
qed

text \<open>
  Claim C4. When the backend's stream ends normally and its chunks deliver the fragments
  \<open>fs\<close>, one each, simple streaming yields one string per fragment, the \<open>k\<close>-th being the
  concatenation of the first \<open>k\<close> fragments, and the final answer is the concatenation of
  them all. Each yielded string therefore extends the one before it by the next fragment.
  The worked example streams \<open>He\<close> and \<open>llo\<close> and observes \<open>He\<close>, \<open>Hello\<close>.
\<close>

theorem generate_answer_streaming_cumulative:
  assumes "llm_stream llm
             (make_prompt (join [nl, nl] (map page_content (retrieved_docs state))) (question state))
           = (chunks, None)"
      and "list_all2 delivers chunks fs"
  shows "gen_yields (generate_answer_streaming llm state) =
           map (\<lambda>k. IStr (concat (take (Suc k) fs))) [0..<length fs]
         \<and> answer (gen_return (generate_answer_streaming llm state)) = Some (concat fs)"
  using assms(1) stream_loop_delivers [OF assms(2), of "[]"]
  by (simp add: generate_answer_streaming_def Let_def del: upt_Suc)

theorem generate_answer_streaming_cumulative_witness:
  "llm_stream (stub_llm (Inl ''unused'') [ObjChunk (Some (Some ''He'')) None, StrChunk ''llo''] None)
     (make_prompt (join [nl, nl] (map page_content two_docs)) ''Q'')
     = ([ObjChunk (Some (Some ''He'')) None, StrChunk ''llo''], None)
   \<and> list_all2 delivers [ObjChunk (Some (Some ''He'')) None, StrChunk ''llo''] [''He'', ''llo'']
   \<and> gen_yields (generate_answer_streaming
        (stub_llm (Inl ''unused'') [ObjChunk (Some (Some ''He'')) None, StrChunk ''llo''] None)
        \<lparr>question = ''Q'', retrieved_docs = two_docs, answer = None\<rparr>)
     = [IStr ''He'', IStr ''Hello'']
   \<and> answer (gen_return (generate_answer_streaming
        (stub_llm (Inl ''unused'') [ObjChunk (Some (Some ''He'')) None, StrChunk ''llo''] None)
        \<lparr>question = ''Q'', retrieved_docs = two_docs, answer = None\<rparr>))
     = Some ''Hello''"
  using generate_answer_streaming_cumulative
    [of "stub_llm (Inl ''unused'') [ObjChunk (Some (Some ''He'')) None, StrChunk ''llo''] None"
        "\<lparr>question = ''Q'', retrieved_docs = two_docs, answer = None\<rparr>"
        "[ObjChunk (Some (Some ''He'')) None, StrChunk ''llo'']" "[''He'', ''llo'']"]
  by (simp add: stub_llm_def)

lemma truthy_attr_None: "(truthy_attr a = None) = empty_attr a"
  by (cases a rule: truthy_attr.cases) (auto simp: empty_attr_def)

lemma chunk_step_skipped: "(chunk_step full c = ([], full)) = skipped c"
  by (cases c) (auto simp: truthy_attr_None[symmetric] split: option.splits)

lemma chunk_step_yields_skipped: "(fst (chunk_step full c) = []) = skipped c"
  by (cases c) (auto simp: truthy_attr_None[symmetric] split: option.splits)

lemma stream_loop_filter:
  "stream_loop full (filter (\<lambda>c. \<not> skipped c) chunks) = stream_loop full chunks"
proof (induction chunks arbitrary: full)
  case Nil
  then show ?case by simp
next
  case (Cons c cs)
  show ?case
  proof (cases "skipped c")
    case True
    then have "chunk_step full c = ([], full)" by (simp add: chunk_step_skipped)
    with True Cons show ?thesis by simp
  next
    case False
    with Cons show ?thesis by simp
  qed
qed

text \<open>
  Claim C10, as stated, fails: a chunk whose \<open>content\<close> is the empty string but whose
  \<open>text\<close> is \<open>x\<close> is not skipped, its text is appended and yielded; and a plain string
  chunk that is empty yields the unchanged accumulated answer once more.
\<close>

theorem empty_content_chunks_counterexample:
  "gen_yields (generate_answer_streaming
        (stub_llm (Inl ''unused'') [StrChunk ''ab'', ObjChunk (Some (Some [])) (Some (Some ''x''))] None)
        \<lparr>question = ''Q'', retrieved_docs = [], answer = None\<rparr>)
     = [IStr ''ab'', IStr ''abx'']
   \<and> answer (gen_return (generate_answer_streaming
        (stub_llm (Inl ''unused'') [StrChunk ''ab'', ObjChunk (Some (Some [])) (Some (Some ''x''))] None)
        \<lparr>question = ''Q'', retrieved_docs = [], answer = None\<rparr>))
     = Some ''abx''
   \<and> gen_yields (generate_answer_streaming
        (stub_llm (Inl ''unused'') [StrChunk ''ab'', StrChunk []] None)
        \<lparr>question = ''Q'', retrieved_docs = [], answer = None\<rparr>)
     = [IStr ''ab'', IStr ''ab'']"
  by (simp add: generate_answer_streaming_def stub_llm_def Let_def)

text \<open>
  Claim C10, amended. A chunk is skipped (nothing yielded, accumulated answer unchanged)
  exactly when it is not a plain string and both its \<open>content\<close> and its \<open>text\<close> are
  missing, \<open>None\<close> or empty; it yields nothing exactly in that case too. Removing such
  chunks from a stream changes neither the yielded values nor the final answer.
\<close>

theorem chunk_skipped_iff:
  "(chunk_step full c = ([], full)) = skipped c
   \<and> (fst (chunk_step full c) = []) = skipped c
   \<and> stream_loop full (filter (\<lambda>x. \<not> skipped x) chunks) = stream_loop full chunks"
  by (simp add: chunk_step_skipped chunk_step_yields_skipped stream_loop_filter)

theorem chunk_skipped_iff_witness:
  "skipped (ObjChunk (Some (Some [])) None)
   \<and> chunk_step ''ab'' (ObjChunk (Some (Some [])) None) = ([], ''ab'')
   \<and> stream_loop ''ab''
        (filter (\<lambda>x. \<not> skipped x) [StrChunk ''c'', ObjChunk None (Some None), StrChunk ''d''])
     = stream_loop ''ab'' [StrChunk ''c'', ObjChunk None (Some None), StrChunk ''d'']
   \<and> stream_loop ''ab'' [StrChunk ''c'', ObjChunk None (Some None), StrChunk ''d'']
     = ([IStr ''abc'', IStr ''abcd''], ''abcd'')"
  using chunk_skipped_iff
    [of "''ab''" "ObjChunk (Some (Some [])) None"
        "[StrChunk ''c'', ObjChunk None (Some None), StrChunk ''d'']"]
  by (simp add: empty_attr_def)

section \<open>Tool-augmented generation: results\<close>

lemma merge_docs_length: "length (merge_docs i ds) = length ds"
  by (induction ds arbitrary: i) auto

lemma merge_docs_nth:
  "k < length ds \<Longrightarrow>
   merge_docs i ds ! k =
     ''['' @ str_nat (i + k) @ ''] '' @ doc_title (i + k) (ds ! k) @ [nl] @ page_content (ds ! k)"
proof (induction ds arbitrary: i k)
  case Nil
  then show ?case by simp
next
  case (Cons d ds)
  then show ?case by (cases k) auto
qed

text \<open>
  Claim C8. The retrieval tool issues one query. When the collaborator returns no passage
  the tool returns the text \<open>No documents found.\<close>; otherwise it returns the first eight
  passages at most, the passage at position \<open>k\<close> (from 0) rendered as \<open>[k+1]\<close>, a space, its
  title, a newline and its body: the rendering of the first passage, followed, for each
  further passage, by a blank line (two newlines) and its rendering. The title is the
  metadata's \<open>title\<close>, else its \<open>source\<close>, else \<open>doc_\<close> and the index. The worked example
  gives the whole output for nine passages as literal text.
\<close>

theorem retriever_tool_fn_format:
  assumes "retriever query = Inr docs"
  shows "fst (retriever_tool_fn retriever query) = [RetrieverInvoke query]
         \<and> (docs = [] \<longrightarrow> snd (retriever_tool_fn retriever query) = Inr ''No documents found.'')
         \<and> (docs \<noteq> [] \<longrightarrow>
              snd (retriever_tool_fn retriever query) =
                Inr ((''['' @ str_nat 1 @ ''] '' @ doc_title 1 (docs ! 0) @ [nl] @ page_content (docs ! 0))
                     @ concat (map (\<lambda>k. [nl, nl] @ ''['' @ str_nat (k + 1) @ ''] ''
                                        @ doc_title (k + 1) (docs ! k) @ [nl] @ page_content (docs ! k))
                                   [1..<min 8 (length docs)])))"
proof -
  have parts: "merge_docs 1 (take 8 docs) =
          map (\<lambda>k. ''['' @ str_nat (k + 1) @ ''] '' @ doc_title (k + 1) (docs ! k)
                     @ [nl] @ page_content (docs ! k))
              [0..<min 8 (length docs)]"
    by (rule nth_equalityI) (simp_all add: merge_docs_length merge_docs_nth min.commute)
  have range: "docs \<noteq> [] \<Longrightarrow> [0..<min 8 (length docs)] = 0 # [1..<min 8 (length docs)]"
    by (cases docs) (simp_all add: upt_rec)
  show ?thesis
  proof (cases "docs = []")
    case True
    with assms show ?thesis by (simp add: retriever_tool_fn_def)
  next
    case False
    have "join [nl, nl] (merge_docs 1 (take 8 docs)) =
            (''['' @ str_nat 1 @ ''] '' @ doc_title 1 (docs ! 0) @ [nl] @ page_content (docs ! 0))
            @ concat (map (\<lambda>k. [nl, nl] @ ''['' @ str_nat (k + 1) @ ''] ''
                               @ doc_title (k + 1) (docs ! k) @ [nl] @ page_content (docs ! k))
                          [1..<min 8 (length docs)])"
      unfolding parts range [OF False]
      by (simp add: join_Cons comp_def del: upt_Suc)
    with assms False show ?thesis by (simp add: retriever_tool_fn_def)
  qed
qed

theorem retriever_tool_fn_format_witness:
  "fixed_retriever [] ''q'' = Inr []
   \<and> retriever_tool_fn (fixed_retriever []) ''q'' = ([RetrieverInvoke ''q''], Inr ''No documents found.'')
   \<and> fixed_retriever nine_docs ''q'' = Inr nine_docs
   \<and> nine_docs \<noteq> []
   \<and> retriever_tool_fn (fixed_retriever nine_docs) ''q''
     = ([RetrieverInvoke ''q''],
        Inr (''[1] T'' @ [nl] @ ''a'' @ [nl, nl] @
             ''[2] S'' @ [nl] @ ''b'' @ [nl, nl] @
             ''[3] doc_3'' @ [nl] @ ''c'' @ [nl, nl] @
             ''[4] doc_4'' @ [nl] @ ''d'' @ [nl, nl] @
             ''[5] doc_5'' @ [nl] @ ''e'' @ [nl, nl] @
             ''[6] doc_6'' @ [nl] @ ''f'' @ [nl, nl] @
             ''[7] doc_7'' @ [nl] @ ''g'' @ [nl, nl] @
             ''[8] doc_8'' @ [nl] @ ''h''))"
proof -
  have digits: "str_nat 1 = ''1''" "str_nat 2 = ''2''" "str_nat 3 = ''3''" "str_nat 4 = ''4''"
    "str_nat 5 = ''5''" "str_nat 6 = ''6''" "str_nat 7 = ''7''" "str_nat 8 = ''8''"
    "str_nat (Suc 0) = ''1''" "str_nat (Suc (Suc 0)) = ''2''"
    by (simp_all add: str_nat.simps digit_char_def)
  have range: "[1..<min 8 (length nine_docs)] = [1, 2, 3, 4, 5, 6, 7]"
    by (simp add: nine_docs_def upt_rec)
  have e: "fixed_retriever [] ''q'' = Inr []"
    by (simp add: fixed_retriever_def)
  have n: "fixed_retriever nine_docs ''q'' = Inr nine_docs"
    by (simp add: fixed_retriever_def)
  have ne: "nine_docs \<noteq> []"
    by (simp add: nine_docs_def)
  have titles: "map (\<lambda>k. doc_title (k + 1) (nine_docs ! k)) [0, 1, 2, 3, 4, 5, 6, 7]
      = [''T'', ''S'', ''doc_3'', ''doc_4'', ''doc_5'', ''doc_6'', ''doc_7'', ''doc_8'']"
    by (simp add: doc_title_def nine_docs_def digits)
  have bodies: "map (\<lambda>k. page_content (nine_docs ! k)) [0, 1, 2, 3, 4, 5, 6, 7]
      = [''a'', ''b'', ''c'', ''d'', ''e'', ''f'', ''g'', ''h'']"
    by (simp add: nine_docs_def)
  from retriever_tool_fn_format [of "fixed_retriever []" "''q''" "[]", OF e]
    retriever_tool_fn_format [of "fixed_retriever nine_docs" "''q''" nine_docs, OF n]
    ne titles bodies
  show ?thesis
    unfolding range
    by (simp add: e n digits prod_eq_iff)
qed

text \<open>
  Claim C9. In tool-augmented blocking generation, when the reasoning loop returns: with no
  messages (no \<open>messages\<close> entry, or an empty list), or with a last message whose content
  is missing, \<open>None\<close> or empty, the answer is \<open>Could not generate answer.\<close>; with a last
  message of non-empty content, the answer is that content. Question and passages are
  carried over, and the loop is invoked once.
\<close>

theorem react_generate_answer_fallback:
  assumes "agent_invoke ag (question state) = Inr result"
  shows "(result = None \<or> result = Some [] \<longrightarrow>
            react_generate_answer ag state =
              ([AgentInvoke (question state)],
               Inr \<lparr>question = question state, retrieved_docs = retrieved_docs state,
                    answer = Some ''Could not generate answer.''\<rparr>))
         \<and> (\<forall>ms. result = Some ms \<and> ms \<noteq> [] \<and> empty_attr (msg_content (last ms)) \<longrightarrow>
            react_generate_answer ag state =
              ([AgentInvoke (question state)],
               Inr \<lparr>question = question state, retrieved_docs = retrieved_docs state,
                    answer = Some ''Could not generate answer.''\<rparr>))
         \<and> (\<forall>ms s. result = Some ms \<and> ms \<noteq> [] \<and> msg_content (last ms) = Some (Some s) \<and> s \<noteq> [] \<longrightarrow>
            react_generate_answer ag state =
              ([AgentInvoke (question state)],
               Inr \<lparr>question = question state, retrieved_docs = retrieved_docs state,
                    answer = Some s\<rparr>))"
  using assms
  by (auto simp: react_generate_answer_def Let_def empty_attr_def)

theorem react_generate_answer_fallback_witness:
  "agent_invoke (stub_agent (Inr None) [] None) ''Q'' = Inr None
   \<and> react_generate_answer (stub_agent (Inr None) [] None)
        \<lparr>question = ''Q'', retrieved_docs = two_docs, answer = None\<rparr>
     = ([AgentInvoke ''Q''],
        Inr \<lparr>question = ''Q'', retrieved_docs = two_docs, answer = Some ''Could not generate answer.''\<rparr>)
   \<and> agent_invoke (stub_agent (Inr (Some [text_message ''x'', text_message []])) [] None) ''Q''
     = Inr (Some [text_message ''x'', text_message []])
   \<and> empty_attr (msg_content (last [text_message ''x'', text_message []]))
   \<and> react_generate_answer (stub_agent (Inr (Some [text_message ''x'', text_message []])) [] None)
        \<lparr>question = ''Q'', retrieved_docs = two_docs, answer = None\<rparr>
     = ([AgentInvoke ''Q''],
        Inr \<lparr>question = ''Q'', retrieved_docs = two_docs, answer = Some ''Could not generate answer.''\<rparr>)
   \<and> agent_invoke (stub_agent (Inr (Some [text_message ''x'', text_message ''hi''])) [] None) ''Q''
     = Inr (Some [text_message ''x'', text_message ''hi''])
   \<and> msg_content (last [text_message ''x'', text_message ''hi'']) = Some (Some ''hi'')
   \<and> react_generate_answer (stub_agent (Inr (Some [text_message ''x'', text_message ''hi''])) [] None)
        \<lparr>question = ''Q'', retrieved_docs = two_docs, answer = None\<rparr>
     = ([AgentInvoke ''Q''],
        Inr \<lparr>question = ''Q'', retrieved_docs = two_docs, answer = Some ''hi''\<rparr>)"
  using react_generate_answer_fallback
    [of "stub_agent (Inr None) [] None"
        "\<lparr>question = ''Q'', retrieved_docs = two_docs, answer = None\<rparr>" None]
    react_generate_answer_fallback
    [of "stub_agent (Inr (Some [text_message ''x'', text_message []])) [] None"
        "\<lparr>question = ''Q'', retrieved_docs = two_docs, answer = None\<rparr>"
        "Some [text_message ''x'', text_message []]"]
    react_generate_answer_fallback
    [of "stub_agent (Inr (Some [text_message ''x'', text_message ''hi''])) [] None"
        "\<lparr>question = ''Q'', retrieved_docs = two_docs, answer = None\<rparr>"
        "Some [text_message ''x'', text_message ''hi'']"]
  by (simp add: stub_agent_def text_message_def empty_attr_def)

lemma react_chunk_step_latest:
  "react_chunk_step full c = (case latest_content c of None \<Rightarrow> ([], full) | Some s \<Rightarrow> ([IStr s], s))"
  by (cases "(full, c)" rule: react_chunk_step.cases) (auto simp: Let_def split: option.splits)

lemma react_stream_loop_contents:
  "react_stream_loop full chunks =
     (map IStr (List.map_filter latest_content chunks),
      last (full # List.map_filter latest_content chunks))"
proof (induction chunks arbitrary: full)
  case Nil
  then show ?case by simp
next
  case (Cons c cs)
  then show ?case
    by (cases "latest_content c") (simp_all add: react_chunk_step_latest)
qed

lemma truthy_attr_nonempty: "truthy_attr a = Some s \<Longrightarrow> s \<noteq> []"
  by (cases a rule: truthy_attr.cases) (auto split: if_splits)

lemma latest_content_nonempty: "latest_content c = Some s \<Longrightarrow> s \<noteq> []"
  by (cases c rule: latest_content.cases) (auto split: if_splits dest: truthy_attr_nonempty)

lemma contents_nonempty: "s \<in> set (List.map_filter latest_content chunks) \<Longrightarrow> s \<noteq> []"
  by (auto simp: List.map_filter_def dest: latest_content_nonempty)

lemma no_content_map_filter:
  "list_all (\<lambda>c. latest_content c = None) chunks \<Longrightarrow> List.map_filter latest_content chunks = []"
  by (induction chunks) auto

text \<open>
  Claim C5, as stated, fails in its last part: when the stream raises after a chunk that
  carried the content \<open>A\<close>, the handler yields the error text and the final answer is that
  error text, not \<open>A\<close>, the content of the last content-bearing chunk.
\<close>

theorem stream_raise_after_content_counterexample:
  "List.map_filter latest_content [AgentChunk (Some [text_message ''A''])] = [''A'']
   \<and> gen_yields (react_generate_answer_streaming
        (stub_agent (Inl ''unused'') [AgentChunk (Some [text_message ''A''])] (Some ''boom''))
        \<lparr>question = ''Q'', retrieved_docs = [], answer = None\<rparr>)
     = [IStr ''A'', IStr ''Error generating answer: boom'']
   \<and> answer (gen_return (react_generate_answer_streaming
        (stub_agent (Inl ''unused'') [AgentChunk (Some [text_message ''A''])] (Some ''boom''))
        \<lparr>question = ''Q'', retrieved_docs = [], answer = None\<rparr>))
     = Some ''Error generating answer: boom''
   \<and> answer (gen_return (react_generate_answer_streaming
        (stub_agent (Inl ''unused'') [AgentChunk (Some [text_message ''A''])] (Some ''boom''))
        \<lparr>question = ''Q'', retrieved_docs = [], answer = None\<rparr>))
     \<noteq> Some ''A''"
  by (simp add: react_generate_answer_streaming_def react_error_def stub_agent_def
        text_message_def Let_def)

text \<open>
  Claim C5, amended. In tool-augmented streaming, a chunk carrying non-empty content has
  that content yielded once and made the accumulated answer, whatever was accumulated
  before and whether or not the message bears a completion marker. When the stream ends
  without raising and at least one chunk carried content, the yielded values are the
  contents carried, in order, the final answer is the last of them, and the reasoning loop
  is not invoked a second time.
\<close>

theorem react_streaming_overwrite:
  assumes "agent_stream ag (question state) = (chunks, None)"
      and "List.map_filter latest_content chunks = contents"
      and "contents \<noteq> []"
  shows "(\<forall>full c s. latest_content c = Some s \<longrightarrow> react_chunk_step full c = ([IStr s], s))
         \<and> gen_yields (react_generate_answer_streaming ag state) = map IStr contents
         \<and> answer (gen_return (react_generate_answer_streaming ag state)) = Some (last contents)
         \<and> gen_calls (react_generate_answer_streaming ag state) = [AgentStream (question state)]"
proof -
  have step: "\<forall>full c s. latest_content c = Some s \<longrightarrow> react_chunk_step full c = ([IStr s], s)"
    by (simp add: react_chunk_step_latest)
  have loop: "react_stream_loop [] chunks = (map IStr contents, last contents)"
    using assms(2,3) by (simp add: react_stream_loop_contents)
  have "last contents \<in> set (List.map_filter latest_content chunks)"
    using assms(2,3) by simp
  then have ne: "last contents \<noteq> []"
    by (rule contents_nonempty)
  show ?thesis
    using step assms(1) loop ne
    by (simp add: react_generate_answer_streaming_def Let_def)
qed

theorem react_streaming_overwrite_witness:
  "agent_stream
     (stub_agent (Inl ''unused'')
        [AgentChunk (Some [text_message ''A'']), AgentChunk None,
         AgentChunk (Some [text_message ''x'', final_message ''AB''])] None) ''Q''
     = ([AgentChunk (Some [text_message ''A'']), AgentChunk None,
         AgentChunk (Some [text_message ''x'', final_message ''AB''])], None)
   \<and> List.map_filter latest_content
        [AgentChunk (Some [text_message ''A'']), AgentChunk None,
         AgentChunk (Some [text_message ''x'', final_message ''AB''])] = [''A'', ''AB'']
   \<and> react_chunk_step ''old'' (AgentChunk (Some [text_message ''x'', final_message ''AB'']))
     = ([IStr ''AB''], ''AB'')
   \<and> react_chunk_step ''old'' (AgentChunk (Some [text_message ''A''])) = ([IStr ''A''], ''A'')
   \<and> gen_yields (react_generate_answer_streaming
        (stub_agent (Inl ''unused'')
           [AgentChunk (Some [text_message ''A'']), AgentChunk None,
            AgentChunk (Some [text_message ''x'', final_message ''AB''])] None)
        \<lparr>question = ''Q'', retrieved_docs = two_docs, answer = None\<rparr>)
     = [IStr ''A'', IStr ''AB'']
   \<and> answer (gen_return (react_generate_answer_streaming
        (stub_agent (Inl ''unused'')
           [AgentChunk (Some [text_message ''A'']), AgentChunk None,
            AgentChunk (Some [text_message ''x'', final_message ''AB''])] None)
        \<lparr>question = ''Q'', retrieved_docs = two_docs, answer = None\<rparr>))
     = Some ''AB''"
  using react_streaming_overwrite
    [of "stub_agent (Inl ''unused'')
           [AgentChunk (Some [text_message ''A'']), AgentChunk None,
            AgentChunk (Some [text_message ''x'', final_message ''AB''])] None"
        "\<lparr>question = ''Q'', retrieved_docs = two_docs, answer = None\<rparr>"
        "[AgentChunk (Some [text_message ''A'']), AgentChunk None,
          AgentChunk (Some [text_message ''x'', final_message ''AB''])]"
        "[''A'', ''AB'']"]
  by (simp add: stub_agent_def text_message_def final_message_def finish_marked_def Let_def)

text \<open>
  Claim C2, as stated, fails. Simple streaming has no fallback: on an empty stream it never
  calls \<open>invoke\<close>, yields nothing and returns the empty string as answer, though the backend
  would have answered \<open>fallback\<close>. Tool-augmented streaming does fall back, but when the
  invocation returns no message it yields nothing and the answer is the empty string.
\<close>

theorem empty_stream_fallback_counterexample:
  "generate_answer_streaming (stub_llm (Inr (Response (Some ''fallback''))) [] None)
        \<lparr>question = ''Q'', retrieved_docs = [], answer = None\<rparr>
     = \<lparr>gen_calls = [LlmStream (make_prompt [] ''Q'')],
        gen_yields = [],
        gen_return = \<lparr>question = ''Q'', retrieved_docs = [], answer = Some []\<rparr>\<rparr>
   \<and> react_generate_answer_streaming (stub_agent (Inr (Some [])) [] None)
        \<lparr>question = ''Q'', retrieved_docs = [], answer = None\<rparr>
     = \<lparr>gen_calls = [AgentStream ''Q'', AgentInvoke ''Q''],
        gen_yields = [],
        gen_return = \<lparr>question = ''Q'', retrieved_docs = [], answer = Some []\<rparr>\<rparr>"
  by (simp add: generate_answer_streaming_def react_generate_answer_streaming_def
        stub_llm_def stub_agent_def Let_def)

text \<open>
  Claim C2, amended. In tool-augmented streaming, when the stream ends normally and no
  chunk carried non-empty content, the reasoning loop is invoked exactly once after the
  stream; when that invocation returns at least one message, the content of the last one
  (or \<open>Could not generate answer.\<close> when it has no content attribute) is the only value
  yielded and is the answer of the returned state. Simple streaming only ever calls
  \<open>stream\<close>, once.
\<close>

theorem react_streaming_fallback:
  assumes "agent_stream ag (question state) = (chunks, None)"
      and "list_all (\<lambda>c. latest_content c = None) chunks"
  shows "gen_calls (react_generate_answer_streaming ag state) =
           [AgentStream (question state), AgentInvoke (question state)]
         \<and> (\<forall>ms. agent_invoke ag (question state) = Inr (Some ms) \<and> ms \<noteq> [] \<longrightarrow>
               gen_yields (react_generate_answer_streaming ag state) =
                 [item_of (case msg_content (last ms) of
                             Some v \<Rightarrow> v
                           | None \<Rightarrow> Some ''Could not generate answer.'')]
               \<and> answer (gen_return (react_generate_answer_streaming ag state)) =
                   (case msg_content (last ms) of
                      Some v \<Rightarrow> v
                    | None \<Rightarrow> Some ''Could not generate answer.''))
         \<and> gen_calls (generate_answer_streaming llm state) =
             [LlmStream (make_prompt (join [nl, nl] (map page_content (retrieved_docs state)))
                                     (question state))]"
proof -
  have loop: "react_stream_loop [] chunks = ([], [])"
    using no_content_map_filter [OF assms(2)] by (simp add: react_stream_loop_contents)
  have simple: "gen_calls (generate_answer_streaming llm state) =
             [LlmStream (make_prompt (join [nl, nl] (map page_content (retrieved_docs state)))
                                     (question state))]"
    by (simp add: generate_answer_streaming_def Let_def split: prod.splits option.splits)
  have calls: "gen_calls (react_generate_answer_streaming ag state) =
           [AgentStream (question state), AgentInvoke (question state)]"
    using assms(1) loop
    by (simp add: react_generate_answer_streaming_def react_error_def Let_def
             split: sum.splits option.splits)
  show ?thesis
    using assms(1) loop simple calls
    by (auto simp: react_generate_answer_streaming_def Let_def)
qed

theorem react_streaming_fallback_witness:
  "agent_stream (stub_agent (Inr (Some [text_message ''x'', text_message ''X'']))
        [AgentChunk None, AgentChunk (Some [])] None) ''Q''
     = ([AgentChunk None, AgentChunk (Some [])], None)
   \<and> list_all (\<lambda>c. latest_content c = None) [AgentChunk None, AgentChunk (Some [])]
   \<and> gen_calls (react_generate_answer_streaming
        (stub_agent (Inr (Some [text_message ''x'', text_message ''X'']))
           [AgentChunk None, AgentChunk (Some [])] None)
        \<lparr>question = ''Q'', retrieved_docs = two_docs, answer = None\<rparr>)
     = [AgentStream ''Q'', AgentInvoke ''Q'']
   \<and> gen_yields (react_generate_answer_streaming
        (stub_agent (Inr (Some [text_message ''x'', text_message ''X'']))
           [AgentChunk None, AgentChunk (Some [])] None)
        \<lparr>question = ''Q'', retrieved_docs = two_docs, answer = None\<rparr>)
     = [IStr ''X'']
   \<and> answer (gen_return (react_generate_answer_streaming
        (stub_agent (Inr (Some [text_message ''x'', text_message ''X'']))
           [AgentChunk None, AgentChunk (Some [])] None)
        \<lparr>question = ''Q'', retrieved_docs = two_docs, answer = None\<rparr>))
     = Some ''X''"
  using react_streaming_fallback
    [of "stub_agent (Inr (Some [text_message ''x'', text_message ''X'']))
           [AgentChunk None, AgentChunk (Some [])] None"
        "\<lparr>question = ''Q'', retrieved_docs = two_docs, answer = None\<rparr>"
        "[AgentChunk None, AgentChunk (Some [])]"]
  by (simp add: stub_agent_def text_message_def)

section \<open>Pipeline orchestrator: results\<close>

text \<open>
  Neither generation stage ever yields a state object: the final state is the value of the
  generator's \<open>return\<close>. The orchestrator's loop therefore never stores one in
  \<open>final_state\<close>, and no run emits a \<open>complete\<close> event.
\<close>

lemma relay_no_state:
  "list_all (\<lambda>y. \<not> is_state y) ys \<Longrightarrow> \<not> is_state fin \<Longrightarrow>
   \<not> is_state (snd (relay st fin ys)) \<and> Complete \<notin> ev_step ` set (fst (relay st fin ys))"
  by (induction st fin ys rule: relay.induct) (simp_all add: split_beta)

lemma complete_step_no_state: "\<not> is_state fin \<Longrightarrow> fst (complete_step fin) = []"
  by (cases fin) auto

lemma chunk_step_no_state: "list_all (\<lambda>y. \<not> is_state y) (fst (chunk_step full c))"
  by (cases c) (auto split: option.splits)

lemma stream_loop_no_state: "list_all (\<lambda>y. \<not> is_state y) (fst (stream_loop full chunks))"
  by (induction chunks arbitrary: full) (auto simp: split_beta chunk_step_no_state)

lemma react_stream_loop_no_state:
  "list_all (\<lambda>y. \<not> is_state y) (fst (react_stream_loop full chunks))"
  by (simp add: react_stream_loop_contents list_all_iff)

lemma item_of_no_state: "\<not> is_state (item_of v)"
  by (cases v) auto

lemma simple_yields_no_state:
  "list_all (\<lambda>y. \<not> is_state y) (gen_yields (generate_answer_streaming llm st))"
  using stream_loop_no_state
  by (auto simp: generate_answer_streaming_def Let_def split_beta split: option.splits)

lemma react_yields_no_state:
  "list_all (\<lambda>y. \<not> is_state y) (gen_yields (react_generate_answer_streaming ag st))"
  using react_stream_loop_no_state [of "[]" "fst (agent_stream ag (question st))"]
  by (auto simp: react_generate_answer_streaming_def react_error_def Let_def split_beta
        item_of_no_state split: option.splits sum.splits)

lemma run_streaming_no_complete:
  assumes "\<And>st. list_all (\<lambda>y. \<not> is_state y) (gen_yields (generate st))"
  shows "Complete \<notin> ev_step ` set (fst (snd (run_streaming retriever generate q)))"
proof (cases "retriever q")
  case (Inl e)
  then show ?thesis by (simp add: run_streaming_def)
next
  case (Inr docs)
  have r: "\<not> is_state (snd (relay (RAGState_of q docs) INone (gen_yields (generate (RAGState_of q docs)))))
        \<and> Complete \<notin> ev_step ` set (fst (relay (RAGState_of q docs) INone (gen_yields (generate (RAGState_of q docs)))))"
    by (rule relay_no_state) (simp_all add: assms)
  then have "fst (complete_step (snd (relay (RAGState_of q docs) INone (gen_yields (generate (RAGState_of q docs)))))) = []"
    by (simp add: complete_step_no_state)
  with r Inr show ?thesis
    by (simp add: run_streaming_def Let_def split_beta)
qed

lemma run_streaming_simple_no_complete:
  "Complete \<notin> ev_step ` set (fst (snd (run_streaming_simple retriever llm q)))"
  unfolding run_streaming_simple_def
  by (rule run_streaming_no_complete) (rule simple_yields_no_state)

lemma run_streaming_react_no_complete:
  "Complete \<notin> ev_step ` set (fst (snd (run_streaming_react retriever ag q)))"
  unfolding run_streaming_react_def
  by (rule run_streaming_no_complete) (rule react_yields_no_state)

text \<open>
  Claim C1, evaluated. A retriever returning two passages and a backend streaming \<open>A\<close>
  then \<open>B\<close> (for the reasoning loop: the snapshots \<open>A\<close> and then \<open>AB\<close>, the latter marked
  final). In both node classes the generation stage returns a final state with answer
  \<open>AB\<close>, and \<open>run_streaming\<close> emits the two retrieving events, the opening generating
  event and the generating events for \<open>A\<close> and \<open>AB\<close>, and then ends: the \<open>complete\<close>
  event that the claim expects last is not emitted.
\<close>

theorem run_streaming_two_fragments:
  "gen_return (generate_answer_streaming
       (stub_llm (Inl ''unused'') [ObjChunk (Some (Some ''A'')) None, ObjChunk (Some (Some ''B'')) None] None)
       \<lparr>question = ''Q'', retrieved_docs = two_docs, answer = None\<rparr>)
     = \<lparr>question = ''Q'', retrieved_docs = two_docs, answer = Some ''AB''\<rparr>
   \<and> snd (run_streaming_simple (fixed_retriever two_docs)
       (stub_llm (Inl ''unused'') [ObjChunk (Some (Some ''A'')) None, ObjChunk (Some (Some ''B'')) None] None)
       ''Q'')
     = ([\<lparr>ev_step = Retrieving, ev_content = Some ''Retrieving relevant documents...'', ev_state = None\<rparr>,
         \<lparr>ev_step = Retrieving, ev_content = Some ''Found 2 relevant documents'',
          ev_state = Some \<lparr>question = ''Q'', retrieved_docs = two_docs, answer = None\<rparr>\<rparr>,
         \<lparr>ev_step = Generating, ev_content = Some [],
          ev_state = Some \<lparr>question = ''Q'', retrieved_docs = two_docs, answer = None\<rparr>\<rparr>,
         \<lparr>ev_step = Generating, ev_content = Some ''A'',
          ev_state = Some \<lparr>question = ''Q'', retrieved_docs = two_docs, answer = None\<rparr>\<rparr>,
         \<lparr>ev_step = Generating, ev_content = Some ''AB'',
          ev_state = Some \<lparr>question = ''Q'', retrieved_docs = two_docs, answer = None\<rparr>\<rparr>],
        None)
   \<and> gen_return (react_generate_answer_streaming
       (stub_agent (Inl ''unused'') [AgentChunk (Some [text_message ''A'']), AgentChunk (Some [final_message ''AB''])] None)
       \<lparr>question = ''Q'', retrieved_docs = two_docs, answer = None\<rparr>)
     = \<lparr>question = ''Q'', retrieved_docs = two_docs, answer = Some ''AB''\<rparr>
   \<and> snd (run_streaming_react (fixed_retriever two_docs)
       (stub_agent (Inl ''unused'') [AgentChunk (Some [text_message ''A'']), AgentChunk (Some [final_message ''AB''])] None)
       ''Q'')
     = ([\<lparr>ev_step = Retrieving, ev_content = Some ''Retrieving relevant documents...'', ev_state = None\<rparr>,
         \<lparr>ev_step = Retrieving, ev_content = Some ''Found 2 relevant documents'',
          ev_state = Some \<lparr>question = ''Q'', retrieved_docs = two_docs, answer = None\<rparr>\<rparr>,
         \<lparr>ev_step = Generating, ev_content = Some [],
          ev_state = Some \<lparr>question = ''Q'', retrieved_docs = two_docs, answer = None\<rparr>\<rparr>,
         \<lparr>ev_step = Generating, ev_content = Some ''A'',
          ev_state = Some \<lparr>question = ''Q'', retrieved_docs = two_docs, answer = None\<rparr>\<rparr>,
         \<lparr>ev_step = Generating, ev_content = Some ''AB'',
          ev_state = Some \<lparr>question = ''Q'', retrieved_docs = two_docs, answer = None\<rparr>\<rparr>],
        None)"
proof -
  have len: "str_nat (length two_docs) = ''2''"
    by (simp add: two_docs_def str_nat.simps digit_char_def)
  show ?thesis
    by (simp add: run_streaming_simple_def run_streaming_react_def run_streaming_def
          fixed_retriever_def stub_llm_def stub_agent_def generate_answer_streaming_def
          react_generate_answer_streaming_def text_message_def final_message_def finish_marked_def
          RAGState_of_def Let_def len)
qed

end
